theory Spec2Isabelle
  imports Main "HOL-Library.Word"
begin

unbundle bit_operations_syntax

section \<open>The automaton engine of index.js\<close>

text \<open>
  The engine is the part of \<^verbatim>\<open>src/index.js\<close> that advances the grid by one generation:
  \<^verbatim>\<open>Canvas.doWork\<close>, the level and pixel accessors of \<^verbatim>\<open>Canvas\<close>, the generator
  \<^verbatim>\<open>range\<close>, and \<^verbatim>\<open>RockPaperAutomata.update\<close> with the two rule methods
  \<^verbatim>\<open>randomAlgorithm\<close> (the spec's Classic variant) and \<^verbatim>\<open>wavesAlgorithm\<close> (Waves).

  Numbers. Coordinates, levels and selector cursors are JavaScript numbers that only ever
  hold integers here; they are \<open>int\<close>. The pixel buffers are \<^verbatim>\<open>Uint8ClampedArray\<close>s: a
  cell is an \<open>8 word\<close>, a read yields its value as a number (\<open>unat\<close>), a write clamps.

  Arrays. An array is a list, read with \<open>!\<close> and written with list update at the index
  the source computes. The model follows the source only where that index lies inside the
  array (outside, JavaScript reads \<^verbatim>\<open>undefined\<close> and a plain array grows on a write).
  A pass over a canvas whose arrays have the size of its grid, at least two cells wide and
  high, stays inside: it visits interior cells and the offsets are -1, 0 or 1. A theorem
  that reads back what a call wrote names the index conditions it needs
  (\<open>insideLevels\<close>, \<open>insidePixels\<close>).

  Exceptions. A call either returns or throws, and in both cases the mutations made so far
  stay: the level array is updated in place. The outcome of a call therefore carries the
  state reached in both cases.
\<close>

datatype error = UnknownNeighborPickingMode | TypeError

datatype 's outcome = Returned 's | Thrown error 's

fun state_of :: "'s outcome \<Rightarrow> 's" where
  "state_of (Returned s) = s"
| "state_of (Thrown e s) = s"

fun thrown :: "'s outcome \<Rightarrow> error option" where
  "thrown (Returned s) = None"
| "thrown (Thrown e s) = Some e"

subsection \<open>Canvas\<close>

text \<open>
  \<open>imageData\<close> is the pixel store of the canvas' 2D context: four bytes (r, g, b, alpha)
  per cell, row after row. \<^verbatim>\<open>getUnderlyingBufferCopy\<close> returns a copy of it and
  \<^verbatim>\<open>putImageData\<close> replaces it.
\<close>

record Canvas =
  width :: int
  height :: int
  levelByAutomatonIndex :: "int list"
  imageData :: "8 word list"

definition canvasCoordToDataIndex :: "Canvas \<Rightarrow> int \<Rightarrow> int \<Rightarrow> int" where
  "canvasCoordToDataIndex c x y = 4 * (y * width c + x)"

definition canvasCoordToLevelIndex :: "Canvas \<Rightarrow> int \<Rightarrow> int \<Rightarrow> int" where
  "canvasCoordToLevelIndex c x y = y * width c + x"

definition setLevelAtCoord :: "Canvas \<Rightarrow> int \<Rightarrow> int \<Rightarrow> int \<Rightarrow> Canvas" where
  "setLevelAtCoord c x y level =
     c\<lparr>levelByAutomatonIndex :=
         (levelByAutomatonIndex c)[nat (canvasCoordToLevelIndex c x y) := level]\<rparr>"

definition getLevelAtCoord :: "Canvas \<Rightarrow> int \<Rightarrow> int \<Rightarrow> int" where
  "getLevelAtCoord c x y = levelByAutomatonIndex c ! nat (canvasCoordToLevelIndex c x y)"

definition getRGB :: "Canvas \<Rightarrow> 8 word list \<Rightarrow> int \<Rightarrow> int \<Rightarrow> nat \<times> nat \<times> nat" where
  "getRGB c buffer x y =
     (unat (buffer ! nat (canvasCoordToDataIndex c x y + 0)),
      unat (buffer ! nat (canvasCoordToDataIndex c x y + 1)),
      unat (buffer ! nat (canvasCoordToDataIndex c x y + 2)))"

text \<open>Storing a non-negative integer into a \<^verbatim>\<open>Uint8ClampedArray\<close> cell.\<close>

definition clamp8 :: "nat \<Rightarrow> 8 word" where
  "clamp8 n = of_nat (min n 255)"

definition setRGB :: "Canvas \<Rightarrow> 8 word list \<Rightarrow> int \<Rightarrow> int \<Rightarrow> nat \<Rightarrow> nat \<Rightarrow> nat \<Rightarrow> 8 word list" where
  "setRGB c buffer x y r g b =
     buffer[nat (canvasCoordToDataIndex c x y + 0) := clamp8 r,
            nat (canvasCoordToDataIndex c x y + 1) := clamp8 g,
            nat (canvasCoordToDataIndex c x y + 2) := clamp8 b]"

definition isPixelBlank :: "Canvas \<Rightarrow> 8 word list \<Rightarrow> int \<Rightarrow> int \<Rightarrow> bool" where
  "isPixelBlank c buffer x y = (case getRGB c buffer x y of (r, g, b) \<Rightarrow> r + g + b = 0)"

subsection \<open>The generator range\<close>

text \<open>
  \<^verbatim>\<open>range(begin, end)\<close> counts up from \<open>begin\<close> to \<open>end - 1\<close> when \<open>begin < end\<close> and
  otherwise counts down from \<open>begin\<close> to \<open>end + 1\<close>.
\<close>

definition range_gen :: "int \<Rightarrow> int \<Rightarrow> int list" where
  "range_gen b e = (if b < e then [b..e - 1] else rev [e + 1..b])"

subsection \<open>The simulation object\<close>

text \<open>
  The fields of \<^verbatim>\<open>RockPaperAutomata\<close> the engine reads or writes. Its canvas
  (\<^verbatim>\<open>this.uiCanvas\<close>) is kept beside it, as the second component of the state of a tick.
  \<open>randomCalls\<close> is not a field of the source: it counts the calls of \<^verbatim>\<open>Math.random\<close>
  made so far, the position in the stream of random draws.
\<close>

record RockPaperAutomata =
  algorithm :: string
  initialLevel :: int
  edibleLevel :: int
  neighborPickingMode :: int
  fixedNeighborPicks :: "(int \<times> int) list"
  fixedNeighborMask :: int
  fixedNeighborPicksIndex :: int
  randomNeighborPicks :: "(int \<times> int) list"
  randomNeighborMask :: int
  randomNeighborPicksIndex :: int
  youngBanquetMode :: bool
  isPaused :: bool
  randomCalls :: nat

definition INITIAL_LEVEL :: int where "INITIAL_LEVEL = 30"
definition EDIBLE_LEVEL :: int where "EDIBLE_LEVEL = 1"
definition NEIGHBOR_PICKING_MODE_RANDOM :: int where "NEIGHBOR_PICKING_MODE_RANDOM = 0"
definition NEIGHBOR_PICKING_MODE_FIXED :: int where "NEIGHBOR_PICKING_MODE_FIXED = 1"
definition NEIGHBOR_PICKING_MODE_PRE_RANDOM :: int where "NEIGHBOR_PICKING_MODE_PRE_RANDOM = 2"

text \<open>
  One draw is the value of \<^verbatim>\<open>Math.trunc(Math.random() * 3)\<close>: 0, 1 or 2. The stream of
  draws is a parameter \<open>rnd\<close> of everything that draws; draw number \<open>k\<close> is \<open>rnd k\<close>.
\<close>

datatype draw3 = D0 | D1 | D2

fun draw_int :: "draw3 \<Rightarrow> int" where
  "draw_int D0 = 0"
| "draw_int D1 = 1"
| "draw_int D2 = 2"

text \<open>
  The constructor, as far as the engine's fields go. The 128 precomputed picks take 256
  draws, two per pick.
\<close>

definition constructor :: "(nat \<Rightarrow> draw3) \<Rightarrow> RockPaperAutomata" where
  "constructor rnd =
     \<lparr> algorithm = ''waves'',
       initialLevel = INITIAL_LEVEL,
       edibleLevel = EDIBLE_LEVEL,
       neighborPickingMode = NEIGHBOR_PICKING_MODE_RANDOM,
       fixedNeighborPicks = [(1, 1), (1, 0), (1, -1), (0, -1), (-1, -1), (-1, 0), (-1, 1), (0, 1)],
       fixedNeighborMask = 8 - 1,
       fixedNeighborPicksIndex = 0,
       randomNeighborPicks =
         map (\<lambda>i. (draw_int (rnd (2 * i)) - 1, draw_int (rnd (2 * i + 1)) - 1)) [0..<128],
       randomNeighborMask = 128 - 1,
       randomNeighborPicksIndex = 0,
       youngBanquetMode = True,
       isPaused = False,
       randomCalls = 256 \<rparr>"

text \<open>
  The \<^verbatim>\<open>change\<close> listener of the neighbor-selection radio buttons: a \<^verbatim>\<open>switch\<close> over
  the button's text with three cases and no default.
\<close>

definition onNeighborSelectionChange :: "string \<Rightarrow> RockPaperAutomata \<Rightarrow> RockPaperAutomata" where
  "onNeighborSelectionChange v self =
     (if v = ''random'' then self\<lparr>neighborPickingMode := NEIGHBOR_PICKING_MODE_RANDOM\<rparr>
      else if v = ''fixed'' then self\<lparr>neighborPickingMode := NEIGHBOR_PICKING_MODE_FIXED\<rparr>
      else if v = ''pre-random'' then self\<lparr>neighborPickingMode := NEIGHBOR_PICKING_MODE_PRE_RANDOM\<rparr>
      else self)"

subsection \<open>The two rule methods\<close>

text \<open>
  Both methods read fields of their receiver \<^verbatim>\<open>this\<close> (\<^verbatim>\<open>this.initialLevel\<close>,
  \<^verbatim>\<open>this.edibleLevel\<close>, \<^verbatim>\<open>this.youngBanquetMode\<close>). The receiver is the first
  argument of the model: \<open>Some t\<close> when the method runs on the simulation object \<open>t\<close>, and
  \<open>None\<close> when it runs with \<^verbatim>\<open>this\<close> undefined, where reading a field of
  \<^verbatim>\<open>this\<close> throws a \<^verbatim>\<open>TypeError\<close>. The statements before the read have run by then,
  and their writes stay.
\<close>

definition randomAlgorithm ::
  "RockPaperAutomata option \<Rightarrow> int \<Rightarrow> int \<Rightarrow> int \<Rightarrow> int \<Rightarrow> Canvas \<Rightarrow> 8 word list \<Rightarrow> 8 word list
     \<Rightarrow> (Canvas \<times> 8 word list) outcome" where
  "randomAlgorithm this x y nx ny canvas originalBuffer workingBuffer =
     (let neighborLevel = getLevelAtCoord canvas nx ny in
      if neighborLevel = 0 then Returned (canvas, workingBuffer)
      else
        (case getRGB canvas originalBuffer x y of (r, g, b) \<Rightarrow>
         case getRGB canvas originalBuffer nx ny of (nr, ng, nb) \<Rightarrow>
           if r + g + b = 0 then
             Returned (setLevelAtCoord canvas x y neighborLevel,
                       setRGB canvas workingBuffer x y nr ng nb)
           else if r > 0 \<and> ng > 0 then
             (let wb = setRGB canvas workingBuffer x y 0 ng 0;
                  c1 = setLevelAtCoord canvas nx ny (neighborLevel + 1)
              in case this of
                   None \<Rightarrow> Thrown TypeError (c1, wb)
                 | Some t \<Rightarrow> Returned (setLevelAtCoord c1 x y (initialLevel t), wb))
           else if g > 0 \<and> nb > 0 then
             (let wb = setRGB canvas workingBuffer x y 0 0 nb;
                  c1 = setLevelAtCoord canvas nx ny (neighborLevel + 1)
              in case this of
                   None \<Rightarrow> Thrown TypeError (c1, wb)
                 | Some t \<Rightarrow> Returned (setLevelAtCoord c1 x y (initialLevel t), wb))
           else if b > 0 \<and> nr > 0 then
             (let wb = setRGB canvas workingBuffer x y nr 0 0;
                  c1 = setLevelAtCoord canvas nx ny (neighborLevel + 1)
              in case this of
                   None \<Rightarrow> Thrown TypeError (c1, wb)
                 | Some t \<Rightarrow> Returned (setLevelAtCoord c1 x y (initialLevel t), wb))
           else Returned (canvas, workingBuffer)))"

definition wavesAlgorithm ::
  "RockPaperAutomata option \<Rightarrow> int \<Rightarrow> int \<Rightarrow> int \<Rightarrow> int \<Rightarrow> Canvas \<Rightarrow> 8 word list \<Rightarrow> 8 word list
     \<Rightarrow> (Canvas \<times> 8 word list) outcome" where
  "wavesAlgorithm this x y nx ny canvas originalBuffer workingBuffer =
     (let neighborLevel = getLevelAtCoord canvas nx ny in
      if neighborLevel = 0 then Returned (canvas, workingBuffer)
      else
        (let myLevel = getLevelAtCoord canvas x y in
         case this of
           None \<Rightarrow> Thrown TypeError (canvas, workingBuffer)
         | Some t \<Rightarrow>
             if myLevel > edibleLevel t then
               Returned (setLevelAtCoord canvas x y (myLevel - 1), workingBuffer)
             else
               (case getRGB canvas originalBuffer x y of (r, g, b) \<Rightarrow>
                case getRGB canvas originalBuffer nx ny of (nr, ng, nb) \<Rightarrow>
                  if r + g + b = 0 then
                    Returned (setLevelAtCoord canvas x y neighborLevel,
                              setRGB canvas workingBuffer x y nr ng nb)
                  else if r > 0 \<and> ng > 0 \<and> (\<not> youngBanquetMode t \<or> neighborLevel > myLevel) then
                    Returned
                      (setLevelAtCoord (setLevelAtCoord canvas nx ny (initialLevel t)) x y (initialLevel t),
                       setRGB canvas workingBuffer x y 0 ng 0)
                  else if g > 0 \<and> nb > 0 \<and> (\<not> youngBanquetMode t \<or> neighborLevel > myLevel) then
                    Returned
                      (setLevelAtCoord (setLevelAtCoord canvas nx ny (initialLevel t)) x y (initialLevel t),
                       setRGB canvas workingBuffer x y 0 0 nb)
                  else if b > 0 \<and> nr > 0 \<and> (\<not> youngBanquetMode t \<or> neighborLevel > myLevel) then
                    Returned
                      (setLevelAtCoord (setLevelAtCoord canvas nx ny (initialLevel t)) x y (initialLevel t),
                       setRGB canvas workingBuffer x y nr 0 0)
                  else
                    Returned (setLevelAtCoord canvas x y (myLevel - 1), workingBuffer))))"

subsection \<open>One generation\<close>

text \<open>
  The \<^verbatim>\<open>switch\<close> of \<^verbatim>\<open>update\<close> that picks the neighbor offset of the next cell. The
  random mode takes two draws; the two cyclic modes read their ring at their own cursor and
  advance it under their own mask; any other mode throws.
\<close>

definition pickNeighbor ::
  "(nat \<Rightarrow> draw3) \<Rightarrow> RockPaperAutomata \<Rightarrow> error + ((int \<times> int) \<times> RockPaperAutomata)" where
  "pickNeighbor rnd self =
     (if neighborPickingMode self = NEIGHBOR_PICKING_MODE_RANDOM then
        Inr ((draw_int (rnd (randomCalls self)) - 1, draw_int (rnd (randomCalls self + 1)) - 1),
             self\<lparr>randomCalls := randomCalls self + 2\<rparr>)
      else if neighborPickingMode self = NEIGHBOR_PICKING_MODE_FIXED then
        Inr (fixedNeighborPicks self ! nat (fixedNeighborPicksIndex self),
             self\<lparr>fixedNeighborPicksIndex :=
                    (fixedNeighborPicksIndex self + 1) AND fixedNeighborMask self\<rparr>)
      else if neighborPickingMode self = NEIGHBOR_PICKING_MODE_PRE_RANDOM then
        Inr (randomNeighborPicks self ! nat (randomNeighborPicksIndex self),
             self\<lparr>randomNeighborPicksIndex :=
                    (randomNeighborPicksIndex self + 1) AND randomNeighborMask self\<rparr>)
      else Inl UnknownNeighborPickingMode)"

text \<open>A \<^verbatim>\<open>for ... of\<close> loop: the body runs on each element in turn until one throws.\<close>

fun forEach :: "'a list \<Rightarrow> ('a \<Rightarrow> 's \<Rightarrow> 's outcome) \<Rightarrow> 's \<Rightarrow> 's outcome" where
  "forEach [] body st = Returned st"
| "forEach (a # as) body st =
     (case body a st of
        Returned st' \<Rightarrow> forEach as body st'
      | Thrown e st' \<Rightarrow> Thrown e st')"

text \<open>
  The first statement of the callback \<^verbatim>\<open>update\<close> hands to \<^verbatim>\<open>doWork\<close>:
  \<^verbatim>\<open>const algorithm = self.algorithm === "waves" ? self.wavesAlgorithm : self.randomAlgorithm\<close>.
\<close>

definition selectAlgorithm ::
  "RockPaperAutomata \<Rightarrow> RockPaperAutomata option \<Rightarrow> int \<Rightarrow> int \<Rightarrow> int \<Rightarrow> int \<Rightarrow> Canvas
     \<Rightarrow> 8 word list \<Rightarrow> 8 word list \<Rightarrow> (Canvas \<times> 8 word list) outcome" where
  "selectAlgorithm self = (if algorithm self = ''waves'' then wavesAlgorithm else randomAlgorithm)"

text \<open>
  The body of the inner loop: pick the offset, then call the rule method. The method was
  taken off the simulation object and is called as a plain function,
  \<^verbatim>\<open>algorithm(x, y, x + dx, y + dy, this, originalBuffer, workingBuffer)\<close>. A class body
  is strict code, so inside the method \<^verbatim>\<open>this\<close> is undefined: the receiver is \<open>None\<close>.
  (The \<^verbatim>\<open>this\<close> among the arguments is the callback's own, the canvas.)
\<close>

definition updateCell ::
  "(nat \<Rightarrow> draw3)
     \<Rightarrow> (RockPaperAutomata option \<Rightarrow> int \<Rightarrow> int \<Rightarrow> int \<Rightarrow> int \<Rightarrow> Canvas
          \<Rightarrow> 8 word list \<Rightarrow> 8 word list \<Rightarrow> (Canvas \<times> 8 word list) outcome)
     \<Rightarrow> 8 word list \<Rightarrow> int \<Rightarrow> int
     \<Rightarrow> RockPaperAutomata \<times> Canvas \<times> 8 word list
     \<Rightarrow> (RockPaperAutomata \<times> Canvas \<times> 8 word list) outcome" where
  "updateCell rnd algo originalBuffer y x st =
     (case st of (self, canvas, workingBuffer) \<Rightarrow>
       (case pickNeighbor rnd self of
          Inl e \<Rightarrow> Thrown e (self, canvas, workingBuffer)
        | Inr ((dx, dy), self') \<Rightarrow>
            (case algo None x y (x + dx) (y + dy) canvas originalBuffer workingBuffer of
               Returned (canvas', workingBuffer') \<Rightarrow> Returned (self', canvas', workingBuffer')
             | Thrown e (canvas', workingBuffer') \<Rightarrow> Thrown e (self', canvas', workingBuffer'))))"

text \<open>The callback: the choice of the method, then the two nested loops over the interior.\<close>

definition callback ::
  "(nat \<Rightarrow> draw3) \<Rightarrow> 8 word list \<Rightarrow> RockPaperAutomata \<times> Canvas \<times> 8 word list
     \<Rightarrow> (RockPaperAutomata \<times> Canvas \<times> 8 word list) outcome" where
  "callback rnd originalBuffer st =
     (case st of (self, canvas, workingBuffer) \<Rightarrow>
        (let algo = selectAlgorithm self in
         forEach (range_gen 1 (height canvas - 1))
           (\<lambda>y. forEach (range_gen 1 (width canvas - 1)) (updateCell rnd algo originalBuffer y))
           (self, canvas, workingBuffer)))"

text \<open>
  \<^verbatim>\<open>doWork\<close> takes two copies of the pixel store, runs the callback on them and puts the
  working copy back; when the callback throws, the working copy is dropped.
\<close>

definition doWork ::
  "(8 word list \<Rightarrow> RockPaperAutomata \<times> Canvas \<times> 8 word list
      \<Rightarrow> (RockPaperAutomata \<times> Canvas \<times> 8 word list) outcome)
     \<Rightarrow> RockPaperAutomata \<times> Canvas \<Rightarrow> (RockPaperAutomata \<times> Canvas) outcome" where
  "doWork cb st =
     (case st of (self, canvas) \<Rightarrow>
        (let originalBuffer = imageData canvas;
             workingBuffer = imageData canvas
         in case cb originalBuffer (self, canvas, workingBuffer) of
              Returned (self', canvas', workingBuffer') \<Rightarrow>
                Returned (self', canvas'\<lparr>imageData := workingBuffer'\<rparr>)
            | Thrown e (self', canvas', workingBuffer') \<Rightarrow> Thrown e (self', canvas')))"

text \<open>
  \<^verbatim>\<open>update\<close>, one animation frame. The next frame is requested first, so a frame that
  throws does not stop the following ones.
\<close>

definition update ::
  "(nat \<Rightarrow> draw3) \<Rightarrow> RockPaperAutomata \<times> Canvas \<Rightarrow> (RockPaperAutomata \<times> Canvas) outcome" where
  "update rnd st =
     (if isPaused (fst st) then Returned st else doWork (callback rnd) st)"

fun frames :: "(nat \<Rightarrow> draw3) \<Rightarrow> nat \<Rightarrow> RockPaperAutomata \<times> Canvas \<Rightarrow> RockPaperAutomata \<times> Canvas" where
  "frames rnd 0 st = st"
| "frames rnd (Suc n) st = frames rnd n (state_of (update rnd st))"

subsection \<open>Vocabulary of the claims\<close>

text \<open>
  A cell is Empty when its pixel is blank (\<^verbatim>\<open>r + g + b === 0\<close>, the test both methods
  use). \<open>beats n s\<close> is the disjunction of the three tests by which a neighbor pixel \<open>n\<close>
  eats a pixel \<open>s\<close>: green eats red, blue eats green, red eats blue.
\<close>

definition beats :: "nat \<times> nat \<times> nat \<Rightarrow> nat \<times> nat \<times> nat \<Rightarrow> bool" where
  "beats n s =
     (case s of (r, g, b) \<Rightarrow> case n of (nr, ng, nb) \<Rightarrow>
        (r > 0 \<and> ng > 0) \<or> (g > 0 \<and> nb > 0) \<or> (b > 0 \<and> nr > 0))"

text \<open>The guard of the three predation branches of \<^verbatim>\<open>wavesAlgorithm\<close>.\<close>

definition wavesPredation ::
  "RockPaperAutomata \<Rightarrow> Canvas \<Rightarrow> 8 word list \<Rightarrow> int \<Rightarrow> int \<Rightarrow> int \<Rightarrow> int \<Rightarrow> bool" where
  "wavesPredation t canvas originalBuffer x y nx ny =
     (beats (getRGB canvas originalBuffer nx ny) (getRGB canvas originalBuffer x y)
      \<and> (\<not> youngBanquetMode t \<or> getLevelAtCoord canvas nx ny > getLevelAtCoord canvas x y))"

text \<open>The level index of a cell lies inside the level array.\<close>

definition insideLevels :: "Canvas \<Rightarrow> int \<Rightarrow> int \<Rightarrow> bool" where
  "insideLevels c x y =
     (0 \<le> canvasCoordToLevelIndex c x y
      \<and> nat (canvasCoordToLevelIndex c x y) < length (levelByAutomatonIndex c))"

text \<open>
  A pixel of one of the three species: exactly one channel is lit. (The seeding code
  saturates every painted pixel to 255 in one channel and 0 in the others.)
\<close>

definition pureColour :: "nat \<times> nat \<times> nat \<Rightarrow> bool" where
  "pureColour p =
     (case p of (r, g, b) \<Rightarrow>
        (r > 0 \<and> g = 0 \<and> b = 0) \<or> (r = 0 \<and> g > 0 \<and> b = 0) \<or> (r = 0 \<and> g = 0 \<and> b > 0))"

text \<open>The three colour bytes of a cell lie inside a pixel buffer.\<close>

definition insidePixels :: "Canvas \<Rightarrow> 8 word list \<Rightarrow> int \<Rightarrow> int \<Rightarrow> bool" where
  "insidePixels c buffer x y =
     (0 \<le> canvasCoordToDataIndex c x y
      \<and> nat (canvasCoordToDataIndex c x y + 2) < length buffer)"

text \<open>A cell of the grid that lies on its border.\<close>

definition borderCell :: "Canvas \<Rightarrow> int \<Rightarrow> int \<Rightarrow> bool" where
  "borderCell c x y =
     (0 \<le> x \<and> x < width c \<and> 0 \<le> y \<and> y < height c
      \<and> (x = 0 \<or> x = width c - 1 \<or> y = 0 \<or> y = height c - 1))"

text \<open>The invariant of the spec: a cell is Empty exactly when its level is 0.\<close>

definition cellConsistent :: "Canvas \<Rightarrow> int \<Rightarrow> int \<Rightarrow> bool" where
  "cellConsistent c x y = (isPixelBlank c (imageData c) x y = (getLevelAtCoord c x y = 0))"

definition gridConsistent :: "Canvas \<Rightarrow> bool" where
  "gridConsistent c =
     list_all (\<lambda>y. list_all (\<lambda>x. cellConsistent c x y) [0..width c - 1]) [0..height c - 1]"



subsection \<open>Sample canvases\<close>

text \<open>
  Pixels of the four pure colours, and a grid given row by row as (pixel, level) pairs.
  The spec's species A, B, C are red, green and blue: A is eaten by B, B by C, C by A.
\<close>

definition blackPixel :: "8 word list" where "blackPixel = [0, 0, 0, 255]"
definition redPixel :: "8 word list" where "redPixel = [255, 0, 0, 255]"
definition greenPixel :: "8 word list" where "greenPixel = [0, 255, 0, 255]"
definition bluePixel :: "8 word list" where "bluePixel = [0, 0, 255, 255]"

definition emptyCell :: "8 word list \<times> int" where "emptyCell = (blackPixel, 0)"

definition grid :: "int \<Rightarrow> int \<Rightarrow> (8 word list \<times> int) list \<Rightarrow> Canvas" where
  "grid w h cells =
     \<lparr> width = w, height = h,
       levelByAutomatonIndex = map snd cells,
       imageData = concat (map fst cells) \<rparr>"

text \<open>The simulation as constructed (Waves, random picking), and the same set to Classic.\<close>

definition wavesSim :: RockPaperAutomata where
  "wavesSim = constructor (\<lambda>k. D1)"

definition classicSim :: RockPaperAutomata where
  "classicSim = (constructor (\<lambda>k. D1))\<lparr>algorithm := ''random''\<rparr>"

text \<open>
  The 3 x 3 grid of the spec's scenarios: the centre \<open>(1, 1)\<close> is blue (C) at the given
  level and its right neighbour \<open>(2, 1)\<close> is red (A) at level 30.
\<close>

definition scenario :: "int \<Rightarrow> Canvas" where
  "scenario centreLevel =
     grid 3 3 [emptyCell, emptyCell, emptyCell,
               emptyCell, (bluePixel, centreLevel), (redPixel, 30),
               emptyCell, emptyCell, emptyCell]"

text \<open>A blue centre at level 30 whose neighbours are all Empty.\<close>

definition loneCell :: Canvas where
  "loneCell =
     grid 3 3 [emptyCell, emptyCell, emptyCell,
               emptyCell, (bluePixel, 30), emptyCell,
               emptyCell, emptyCell, emptyCell]"

text \<open>A red centre at the given level beside a red neighbour at level 5: no predation.\<close>

definition sameSpecies :: "int \<Rightarrow> Canvas" where
  "sameSpecies centreLevel =
     grid 3 3 [emptyCell, emptyCell, emptyCell,
               emptyCell, (redPixel, centreLevel), (redPixel, 5),
               emptyCell, emptyCell, emptyCell]"

text \<open>One row of three interior cells: a red cell at level 7 and two Empty cells to its right.\<close>

definition chain :: Canvas where
  "chain =
     grid 5 3 [emptyCell, emptyCell, emptyCell, emptyCell, emptyCell,
               emptyCell, (redPixel, 7), emptyCell, emptyCell, emptyCell,
               emptyCell, emptyCell, emptyCell, emptyCell, emptyCell]"

text \<open>A 4 x 4 grid whose only non-Empty cell is \<open>(2, 1)\<close>, red at level 7.\<close>

definition square :: Canvas where
  "square =
     grid 4 4 [emptyCell, emptyCell, emptyCell, emptyCell,
               emptyCell, emptyCell, (redPixel, 7), emptyCell,
               emptyCell, emptyCell, emptyCell, emptyCell,
               emptyCell, emptyCell, emptyCell, emptyCell]"

text \<open>A canvas one cell wide and three high; its middle cell is red at level 7.\<close>

definition column :: Canvas where
  "column = grid 1 3 [emptyCell, (redPixel, 7), emptyCell]"

subsection \<open>Invariants used in the proofs\<close>

text \<open>
  \<open>keeps K\<close> relates the state before and after one call of a rule method: the level and
  the four pixel bytes of the cell with level index \<open>K\<close> are the same, and so are the
  canvas' dimensions and its own pixel store.
\<close>

definition keeps :: "nat \<Rightarrow> Canvas \<times> 8 word list \<Rightarrow> Canvas \<times> 8 word list \<Rightarrow> bool" where
  "keeps K st st' =
     (case st of (c, wb) \<Rightarrow> case st' of (c', wb') \<Rightarrow>
        width c' = width c \<and> height c' = height c \<and> imageData c' = imageData c
        \<and> levelByAutomatonIndex c' ! K = levelByAutomatonIndex c ! K
        \<and> (\<forall>j<4. wb' ! (4 * K + j) = wb ! (4 * K + j)))"

text \<open>
  The invariant of a pass for the cell \<open>K\<close> of the canvas \<open>c0\<close> the pass started from: its
  level is 0 and its bytes in the working buffer are those of \<open>c0\<close>.
\<close>

definition passInv :: "Canvas \<Rightarrow> nat \<Rightarrow> RockPaperAutomata \<times> Canvas \<times> 8 word list \<Rightarrow> bool" where
  "passInv c0 K st =
     (case st of (self, c, wb) \<Rightarrow>
        width c = width c0 \<and> height c = height c0 \<and> imageData c = imageData c0
        \<and> levelByAutomatonIndex c ! K = 0
        \<and> (\<forall>j<4. wb ! (4 * K + j) = imageData c0 ! (4 * K + j)))"

text \<open>The same between frames: the cell \<open>K\<close> of \<open>c\<close> is at level 0 with the bytes of \<open>c0\<close>.\<close>

definition cellKept :: "Canvas \<Rightarrow> nat \<Rightarrow> Canvas \<Rightarrow> bool" where
  "cellKept c0 K c =
     (width c = width c0 \<and> height c = height c0
      \<and> levelByAutomatonIndex c ! K = 0
      \<and> (\<forall>j<4. imageData c ! (4 * K + j) = imageData c0 ! (4 * K + j)))"

section \<open>Basic facts\<close>

lemma getLevel_setLevel_same:
  "insideLevels c x y \<Longrightarrow> getLevelAtCoord (setLevelAtCoord c x y v) x y = v"
  by (simp add: insideLevels_def getLevelAtCoord_def setLevelAtCoord_def canvasCoordToLevelIndex_def)

lemma setLevel_fields [simp]:
  "width (setLevelAtCoord c x y v) = width c"
  "height (setLevelAtCoord c x y v) = height c"
  "imageData (setLevelAtCoord c x y v) = imageData c"
  "canvasCoordToLevelIndex (setLevelAtCoord c x y v) x' y' = canvasCoordToLevelIndex c x' y'"
  by (simp_all add: setLevelAtCoord_def canvasCoordToLevelIndex_def)

lemma setLevel_other:
  "nat (canvasCoordToLevelIndex c x y) \<noteq> K \<Longrightarrow>
   levelByAutomatonIndex (setLevelAtCoord c x y v) ! K = levelByAutomatonIndex c ! K"
  by (simp add: setLevelAtCoord_def)

lemma setRGB_other:
  assumes "0 \<le> canvasCoordToLevelIndex c x y"
    and "nat (canvasCoordToLevelIndex c x y) \<noteq> K" and "j < 4"
  shows "setRGB c wb x y r g b ! (4 * K + j) = wb ! (4 * K + j)"
proof -
  let ?i = "canvasCoordToLevelIndex c x y"
  have d: "canvasCoordToDataIndex c x y = 4 * ?i"
    by (simp add: canvasCoordToDataIndex_def canvasCoordToLevelIndex_def)
  have "nat (4 * ?i + k) \<noteq> 4 * K + j" if "0 \<le> k" "k < 3" for k :: int
    using assms that by arith
  from this [of 0] this [of 1] this [of 2] show ?thesis
    by (simp add: setRGB_def d)
qed

lemma neighbor_not_K:
  "getLevelAtCoord c nx ny \<noteq> 0 \<Longrightarrow> levelByAutomatonIndex c ! K = 0 \<Longrightarrow>
   nat (canvasCoordToLevelIndex c nx ny) \<noteq> K"
  by (auto simp: getLevelAtCoord_def)

lemma set_range_gen_interior: "2 \<le> n \<Longrightarrow> set (range_gen 1 (n - 1)) = {1..n - 2}"
  by (auto simp: range_gen_def)

lemma selectAlgorithm_cases:
  "selectAlgorithm self = randomAlgorithm \<or> selectAlgorithm self = wavesAlgorithm"
  by (simp add: selectAlgorithm_def)

text \<open>A loop keeps what each run of its body keeps, whether it ends or throws.\<close>

lemma forEach_invariant:
  assumes "I st" and "\<And>a s. a \<in> set as \<Longrightarrow> I s \<Longrightarrow> I (state_of (body a s))"
  shows "I (state_of (forEach as body st))"
  using assms
proof (induction as arbitrary: st)
  case Nil
  then show ?case by simp
next
  case (Cons a as)
  have step: "I (state_of (body a st))"
    using Cons.prems by simp
  show ?case
  proof (cases "body a st")
    case (Returned st')
    with step have "I st'" by simp
    then have "I (state_of (forEach as body st'))"
      using Cons.prems(2) by (intro Cons.IH) simp_all
    with Returned show ?thesis by simp
  next
    case (Thrown e st')
    with step show ?thesis by simp
  qed
qed

section \<open>A cell no call writes\<close>

text \<open>
  A call of either rule method on a cell other than \<open>K\<close> keeps the cell \<open>K\<close> when its level
  is 0: the pixel is written at the self position only, and a neighbor's level is written
  only where it was read as nonzero.
\<close>

lemma randomAlgorithm_keeps:
  assumes "levelByAutomatonIndex canvas ! K = 0"
    and "0 \<le> canvasCoordToLevelIndex canvas x y"
    and "nat (canvasCoordToLevelIndex canvas x y) \<noteq> K"
  shows "keeps K (canvas, wb) (state_of (randomAlgorithm this x y nx ny canvas ob wb))"
proof (cases "getLevelAtCoord canvas nx ny = 0")
  case True
  then show ?thesis by (simp add: randomAlgorithm_def keeps_def)
next
  case False
  note n = neighbor_not_K [OF False assms(1)]
  show ?thesis
    using assms False n
    by (simp add: randomAlgorithm_def keeps_def Let_def setRGB_other setLevel_other
        split: prod.splits option.splits)
qed

lemma wavesAlgorithm_keeps:
  assumes "levelByAutomatonIndex canvas ! K = 0"
    and "0 \<le> canvasCoordToLevelIndex canvas x y"
    and "nat (canvasCoordToLevelIndex canvas x y) \<noteq> K"
  shows "keeps K (canvas, wb) (state_of (wavesAlgorithm this x y nx ny canvas ob wb))"
proof (cases "getLevelAtCoord canvas nx ny = 0")
  case True
  then show ?thesis by (simp add: wavesAlgorithm_def keeps_def)
next
  case False
  note n = neighbor_not_K [OF False assms(1)]
  show ?thesis
    using assms False n
    by (simp add: wavesAlgorithm_def keeps_def Let_def setRGB_other setLevel_other
        split: prod.splits option.splits)
qed

lemma updateCell_passInv:
  assumes inv: "passInv c0 K st"
    and algo: "algo = randomAlgorithm \<or> algo = wavesAlgorithm"
    and pos: "0 \<le> y * width c0 + x"
    and ne: "nat (y * width c0 + x) \<noteq> K"
  shows "passInv c0 K (state_of (updateCell rnd algo ob y x st))"
proof -
  obtain self c wb where st: "st = (self, c, wb)"
    by (cases st) auto
  from inv st have w: "width c = width c0" and lv: "levelByAutomatonIndex c ! K = 0"
    by (simp_all add: passInv_def)
  from pos ne w have pos': "0 \<le> canvasCoordToLevelIndex c x y"
    and ne': "nat (canvasCoordToLevelIndex c x y) \<noteq> K"
    by (simp_all add: canvasCoordToLevelIndex_def)
  show ?thesis
  proof (cases "pickNeighbor rnd self")
    case (Inl e)
    with inv st show ?thesis by (simp add: updateCell_def)
  next
    case (Inr r)
    obtain dx dy self' where r: "r = ((dx, dy), self')"
      by (cases r) auto
    have k: "keeps K (c, wb) (state_of (algo None x y (x + dx) (y + dy) c ob wb))"
      using algo randomAlgorithm_keeps [OF lv pos' ne'] wavesAlgorithm_keeps [OF lv pos' ne']
      by auto
    obtain c' wb' where res: "state_of (algo None x y (x + dx) (y + dy) c ob wb) = (c', wb')"
      by (cases "state_of (algo None x y (x + dx) (y + dy) c ob wb)") auto
    from k res inv st have "passInv c0 K (self', c', wb')"
      by (simp add: keeps_def passInv_def)
    with Inr r res show ?thesis
      by (cases "algo None x y (x + dx) (y + dy) c ob wb") (simp_all add: updateCell_def st)
  qed
qed

lemma cell_index_unique:
  fixes w :: int
  assumes "0 \<le> x" "x < w" "0 \<le> x'" "x' < w" "y * w + x = y' * w + x'"
  shows "x = x' \<and> y = y'"
proof -
  have "y = (y * w + x) div w"
    using assms(1,2) by simp
  also have "\<dots> = (y' * w + x') div w"
    by (simp only: assms(5))
  also have "\<dots> = y'"
    using assms(3,4) by simp
  finally have "y = y'" .
  with assms(5) show ?thesis by simp
qed

lemma interior_not_border:
  fixes w h :: int
  assumes "1 \<le> x" "x \<le> w - 2" "1 \<le> y" "y \<le> h - 2"
    and "0 \<le> cx" "cx < w" "0 \<le> cy" "cy < h"
    and "cx = 0 \<or> cx = w - 1 \<or> cy = 0 \<or> cy = h - 1"
  shows "0 \<le> y * w + x \<and> nat (y * w + x) \<noteq> nat (cy * w + cx)"
proof -
  have a: "0 \<le> y * w" using assms by simp
  have b: "0 \<le> cy * w" using assms by simp
  have "y * w + x \<noteq> cy * w + cx"
  proof
    assume "y * w + x = cy * w + cx"
    then have "x = cx \<and> y = cy"
      using assms by (intro cell_index_unique [of x w cx y cy]) simp_all
    with assms show False by auto
  qed
  moreover have "0 \<le> y * w + x" using a assms(1) by linarith
  moreover have "0 \<le> cy * w + cx" using b assms(5) by linarith
  ultimately show ?thesis by (simp add: eq_nat_nat_iff)
qed

lemma callback_passInv:
  assumes inv: "passInv c0 K (self, c, wb)"
    and dims: "2 \<le> width c0" "2 \<le> height c0"
    and border: "borderCell c0 cx cy"
    and K: "K = nat (canvasCoordToLevelIndex c0 cx cy)"
  shows "passInv c0 K (state_of (callback rnd ob (self, c, wb)))"
proof -
  from inv have w: "width c = width c0" and h: "height c = height c0"
    by (simp_all add: passInv_def)
  have cell: "passInv c0 K (state_of (updateCell rnd (selectAlgorithm self) ob y x s))"
    if "y \<in> set (range_gen 1 (height c0 - 1))" "x \<in> set (range_gen 1 (width c0 - 1))"
      and "passInv c0 K s" for x y s
  proof -
    from that dims have "1 \<le> x" "x \<le> width c0 - 2" "1 \<le> y" "y \<le> height c0 - 2"
      by (simp_all add: set_range_gen_interior)
    with border have "0 \<le> y * width c0 + x \<and> nat (y * width c0 + x) \<noteq> K"
      unfolding K canvasCoordToLevelIndex_def borderCell_def
      by (intro interior_not_border [of x "width c0" y "height c0" cx cy]) simp_all
    with that(3) show ?thesis
      by (intro updateCell_passInv selectAlgorithm_cases) simp_all
  qed
  have row: "passInv c0 K
      (state_of (forEach (range_gen 1 (width c0 - 1)) (updateCell rnd (selectAlgorithm self) ob y) s))"
    if "y \<in> set (range_gen 1 (height c0 - 1))" "passInv c0 K s" for y s
    using that(2) by (rule forEach_invariant) (rule cell [OF that(1)])
  have "passInv c0 K
      (state_of (forEach (range_gen 1 (height c0 - 1))
         (\<lambda>y. forEach (range_gen 1 (width c0 - 1)) (updateCell rnd (selectAlgorithm self) ob y))
         (self, c, wb)))"
    using inv by (rule forEach_invariant) (rule row)
  then show ?thesis
    by (simp add: callback_def w h)
qed

lemma update_cellKept:
  assumes kept: "cellKept c0 K c"
    and dims: "2 \<le> width c0" "2 \<le> height c0"
    and border: "borderCell c0 cx cy"
    and K: "K = nat (canvasCoordToLevelIndex c0 cx cy)"
  shows "cellKept c0 K (snd (state_of (update rnd (self, c))))"
proof (cases "isPaused self")
  case True
  with kept show ?thesis by (simp add: update_def)
next
  case False
  from kept have w: "width c = width c0" and h: "height c = height c0"
    by (simp_all add: cellKept_def)
  have b: "borderCell c cx cy"
    using border w h by (simp add: borderCell_def)
  have K': "K = nat (canvasCoordToLevelIndex c cx cy)"
    using K w by (simp add: canvasCoordToLevelIndex_def)
  have start: "passInv c K (self, c, imageData c)"
    using kept by (simp add: passInv_def cellKept_def)
  have fin: "passInv c K (state_of (callback rnd (imageData c) (self, c, imageData c)))"
    using start dims b K' unfolding w [symmetric] h [symmetric]
    by (rule callback_passInv)
  obtain self' c' wb' where res:
    "state_of (callback rnd (imageData c) (self, c, imageData c)) = (self', c', wb')"
    by (cases "state_of (callback rnd (imageData c) (self, c, imageData c))") auto
  from fin res kept have "cellKept c0 K (c'\<lparr>imageData := wb'\<rparr>)" "cellKept c0 K c'"
    by (simp_all add: passInv_def cellKept_def)
  with res False show ?thesis
    by (cases "callback rnd (imageData c) (self, c, imageData c)")
       (simp_all add: update_def doWork_def)
qed

lemma frames_cellKept:
  assumes "cellKept c0 K c"
    and "2 \<le> width c0" "2 \<le> height c0"
    and "borderCell c0 cx cy"
    and "K = nat (canvasCoordToLevelIndex c0 cx cy)"
  shows "cellKept c0 K (snd (frames rnd n (self, c)))"
  using assms(1)
proof (induction n arbitrary: self c)
  case 0
  then show ?case by simp
next
  case (Suc n)
  obtain self' c' where st: "state_of (update rnd (self, c)) = (self', c')"
    by (cases "state_of (update rnd (self, c))") auto
  have "cellKept c0 K (snd (state_of (update rnd (self, c))))"
    using Suc.prems assms(2-5) by (rule update_cellKept)
  with st have "cellKept c0 K c'" by simp
  then have "cellKept c0 K (snd (frames rnd n (self', c')))"
    by (rule Suc.IH)
  with st show ?case by simp
qed

section \<open>Border cells on a canvas with a border\<close>

text \<open>
  On a canvas at least two cells wide and two cells high the pass visits interior cells
  only, and a border cell whose level is 0 keeps its level and its four pixel bytes through
  any number of frames, whatever the variant, the picking mode and the random draws, and
  whether the frames return or throw.
\<close>

lemma zero_level_border_cell_kept:
  assumes "2 \<le> width c" and "2 \<le> height c"
    and "borderCell c cx cy"
    and "getLevelAtCoord c cx cy = 0"
  shows "getLevelAtCoord (snd (frames rnd n (self, c))) cx cy = 0
       \<and> getRGB (snd (frames rnd n (self, c))) (imageData (snd (frames rnd n (self, c)))) cx cy
           = getRGB c (imageData c) cx cy
       \<and> (\<forall>j<4. imageData (snd (frames rnd n (self, c))) ! (nat (canvasCoordToDataIndex c cx cy) + j)
                  = imageData c ! (nat (canvasCoordToDataIndex c cx cy) + j))"
proof -
  let ?K = "nat (canvasCoordToLevelIndex c cx cy)"
  let ?c' = "snd (frames rnd n (self, c))"
  have pos: "0 \<le> canvasCoordToLevelIndex c cx cy"
    using assms(3) by (simp add: borderCell_def canvasCoordToLevelIndex_def)
  have d: "nat (canvasCoordToDataIndex c cx cy) = 4 * ?K"
    using pos by (simp add: canvasCoordToDataIndex_def canvasCoordToLevelIndex_def nat_mult_distrib)
  have "cellKept c ?K c"
    using assms(4) by (simp add: cellKept_def getLevelAtCoord_def)
  then have k: "cellKept c ?K ?c'"
    using assms(1-3) by (rule frames_cellKept) simp
  then have w: "width ?c' = width c"
    and lv: "levelByAutomatonIndex ?c' ! ?K = 0"
    and px: "\<And>j. j < 4 \<Longrightarrow> imageData ?c' ! (4 * ?K + j) = imageData c ! (4 * ?K + j)"
    by (simp_all add: cellKept_def)
  have d': "canvasCoordToDataIndex ?c' cx cy = canvasCoordToDataIndex c cx cy"
    using w by (simp add: canvasCoordToDataIndex_def)
  have "getLevelAtCoord ?c' cx cy = 0"
    using lv w by (simp add: getLevelAtCoord_def canvasCoordToLevelIndex_def)
  moreover have "getRGB ?c' (imageData ?c') cx cy = getRGB c (imageData c) cx cy"
  proof -
    have i: "nat (canvasCoordToDataIndex c cx cy + k) = 4 * ?K + nat k" if "0 \<le> k" for k
      using pos that
      by (simp add: canvasCoordToDataIndex_def canvasCoordToLevelIndex_def nat_add_distrib nat_mult_distrib)
    show ?thesis
      unfolding getRGB_def d'
      using px [of 0] px [of 1] px [of 2] by (simp add: i d)
  qed
  ultimately show ?thesis
    using px by (simp add: d)
qed

text \<open>
  An instance with a pass that writes: the Classic tick of \<open>chain\<close> in which \<open>(2, 1)\<close> and
  \<open>(3, 1)\<close> are colonised leaves the border cell \<open>(4, 1)\<close> beside them as it was.
\<close>

lemma zero_level_border_cell_kept_example:
  "borderCell chain 4 1
   \<and> getLevelAtCoord (snd (frames (\<lambda>k. if k = 258 \<or> k = 260 then D0 else D1) 1 (classicSim, chain))) 3 1 = 7
   \<and> getLevelAtCoord (snd (frames (\<lambda>k. if k = 258 \<or> k = 260 then D0 else D1) 1 (classicSim, chain))) 4 1 = 0
   \<and> getRGB (snd (frames (\<lambda>k. if k = 258 \<or> k = 260 then D0 else D1) 1 (classicSim, chain)))
         (imageData (snd (frames (\<lambda>k. if k = 258 \<or> k = 260 then D0 else D1) 1 (classicSim, chain)))) 4 1
       = getRGB chain (imageData chain) 4 1"
proof -
  let ?rnd = "\<lambda>k::nat. if k = 258 \<or> k = 260 then D0 else D1"
  have h1: "2 \<le> width chain" by code_simp
  have h2: "2 \<le> height chain" by code_simp
  have h3: "borderCell chain 4 1" by code_simp
  have h4: "getLevelAtCoord chain 4 1 = 0" by code_simp
  have w: "getLevelAtCoord (snd (frames ?rnd 1 (classicSim, chain))) 3 1 = 7" by code_simp
  from zero_level_border_cell_kept [OF h1 h2 h3 h4, of ?rnd 1 classicSim] h3 w
  show ?thesis
    by (elim conjE) (intro conjI; assumption)
qed

section \<open>The cursors of the cyclic selectors\<close>















section \<open>Unknown picking modes\<close>

lemma range_gen_interior_Cons: "3 \<le> n \<Longrightarrow> range_gen 1 (n - 1) = 1 # [2..n - 2]"
  by (simp add: range_gen_def upto_rec1)

lemma pickNeighbor_unknown:
  "neighborPickingMode self \<noteq> NEIGHBOR_PICKING_MODE_RANDOM \<Longrightarrow>
   neighborPickingMode self \<noteq> NEIGHBOR_PICKING_MODE_FIXED \<Longrightarrow>
   neighborPickingMode self \<noteq> NEIGHBOR_PICKING_MODE_PRE_RANDOM \<Longrightarrow>
   pickNeighbor rnd self = Inl UnknownNeighborPickingMode"
  by (simp add: pickNeighbor_def)

lemma callback_unknown:
  assumes "pickNeighbor rnd self = Inl UnknownNeighborPickingMode"
    and "3 \<le> width c" and "3 \<le> height c"
  shows "callback rnd ob (self, c, wb) = Thrown UnknownNeighborPickingMode (self, c, wb)"
proof -
  have cell: "updateCell rnd algo ob y x (self, c, wb) = Thrown UnknownNeighborPickingMode (self, c, wb)"
    for algo y x
    using assms(1) by (simp add: updateCell_def)
  have xs: "range_gen 1 (width c - 1) = 1 # [2..width c - 2]"
    using assms(2) by (rule range_gen_interior_Cons)
  have ys: "range_gen 1 (height c - 1) = 1 # [2..height c - 2]"
    using assms(3) by (rule range_gen_interior_Cons)
  show ?thesis
    unfolding callback_def by (simp add: xs ys cell)
qed

section \<open>The rule methods on the simulation object\<close>

text \<open>
  What the two predation branches do when the method runs with the simulation object as
  its receiver, for cells of pure colours: the cell takes the neighbor's colour, and the
  levels are set as the branch says. A tick never calls the methods this way (see
  \<open>updateCell\<close>); these lemmas record what the branches are written to do.
\<close>

lemma clamp8_unat: "clamp8 (unat w) = w"
proof -
  have "unat w < 256"
    using unsigned_less [of w] by simp
  then show ?thesis
    by (simp add: clamp8_def min_def)
qed

lemma clamp8_0: "clamp8 0 = 0"
  by (simp add: clamp8_def)

lemma getRGB_setRGB_same:
  assumes "insidePixels c wb x y"
  shows "getRGB c (setRGB c wb x y r g b) x y = (unat (clamp8 r), unat (clamp8 g), unat (clamp8 b))"
proof -
  let ?d = "canvasCoordToDataIndex c x y"
  from assms have p: "0 \<le> ?d" and l: "nat (?d + 2) < length wb"
    by (simp_all add: insidePixels_def)
  have i: "nat (?d + 1) = nat ?d + 1" "nat (?d + 2) = nat ?d + 2"
    using p by simp_all
  from l i have "nat ?d + 2 < length wb" by simp
  then show ?thesis
    unfolding getRGB_def setRGB_def by (simp add: i)
qed

lemma same_index_same_pixel:
  "canvasCoordToLevelIndex c nx ny = canvasCoordToLevelIndex c x y \<Longrightarrow>
   getRGB c buffer nx ny = getRGB c buffer x y"
  by (simp add: getRGB_def canvasCoordToDataIndex_def canvasCoordToLevelIndex_def)

lemma beats_irrefl: "pureColour p \<Longrightarrow> \<not> beats p p"
  by (auto simp: pureColour_def beats_def split: prod.splits)

lemma beats_pure_writes_neighbor:
  assumes "pureColour s" "pureColour n" "beats n s"
  shows "(case s of (r, g, b) \<Rightarrow> case n of (nr, ng, nb) \<Rightarrow>
            (r > 0 \<and> ng > 0 \<and> n = (0, ng, 0))
          \<or> (\<not> (r > 0 \<and> ng > 0) \<and> g > 0 \<and> nb > 0 \<and> n = (0, 0, nb))
          \<or> (\<not> (r > 0 \<and> ng > 0) \<and> \<not> (g > 0 \<and> nb > 0) \<and> b > 0 \<and> nr > 0 \<and> n = (nr, 0, 0)))"
  using assms by (auto simp: pureColour_def beats_def split: prod.splits)

lemma getLevel_setLevel_neq:
  assumes "canvasCoordToLevelIndex c x' y' \<noteq> canvasCoordToLevelIndex c x y"
    and "0 \<le> canvasCoordToLevelIndex c x' y'" and "0 \<le> canvasCoordToLevelIndex c x y"
  shows "getLevelAtCoord (setLevelAtCoord c x y v) x' y' = getLevelAtCoord c x' y'"
  using assms by (simp add: getLevelAtCoord_def setLevelAtCoord_def canvasCoordToLevelIndex_def)

lemma insideLevels_setLevel [simp]:
  "insideLevels (setLevelAtCoord c x y v) x' y' = insideLevels c x' y'"
  by (simp add: insideLevels_def setLevelAtCoord_def canvasCoordToLevelIndex_def)

lemma getRGB_setLevel [simp]:
  "getRGB (setLevelAtCoord c x y v) buffer x' y' = getRGB c buffer x' y'"
  by (simp add: getRGB_def canvasCoordToDataIndex_def setLevelAtCoord_def)

lemma classic_predation_on_the_simulation_object:
  assumes nl: "getLevelAtCoord canvas nx ny \<noteq> 0"
    and ps: "pureColour (getRGB canvas ob x y)" and pn: "pureColour (getRGB canvas ob nx ny)"
    and b: "beats (getRGB canvas ob nx ny) (getRGB canvas ob x y)"
    and il: "insideLevels canvas x y" "insideLevels canvas nx ny"
    and ip: "insidePixels canvas wb x y"
  shows "\<exists>c' wb'. randomAlgorithm (Some t) x y nx ny canvas ob wb = Returned (c', wb')
           \<and> getRGB c' wb' x y = getRGB canvas ob nx ny
           \<and> getLevelAtCoord c' x y = initialLevel t
           \<and> getLevelAtCoord c' nx ny = getLevelAtCoord canvas nx ny + 1"
proof -
  obtain r g bl where s: "getRGB canvas ob x y = (r, g, bl)"
    by (cases "getRGB canvas ob x y") auto
  obtain nr ng nb where n: "getRGB canvas ob nx ny = (nr, ng, nb)"
    by (cases "getRGB canvas ob nx ny") auto
  have ne: "canvasCoordToLevelIndex canvas nx ny \<noteq> canvasCoordToLevelIndex canvas x y"
    using same_index_same_pixel [of canvas nx ny x y ob] beats_irrefl [OF ps] b by auto
  have nonblank: "r + g + bl \<noteq> 0"
    using ps s by (auto simp: pureColour_def)
  have bytes: "nr < 256" "ng < 256" "nb < 256"
    using n unsigned_less [where 'b = 8]
    by (auto simp: getRGB_def)
  then have cl: "unat (clamp8 nr) = nr" "unat (clamp8 ng) = ng" "unat (clamp8 nb) = nb"
    by (simp_all add: clamp8_def unat_of_nat min_def)
  let ?c1 = "setLevelAtCoord canvas nx ny (getLevelAtCoord canvas nx ny + 1)"
  let ?c' = "setLevelAtCoord ?c1 x y (initialLevel t)"
  have lv: "getLevelAtCoord ?c' x y = initialLevel t"
    using il by (simp add: getLevel_setLevel_same)
  have ln: "getLevelAtCoord ?c' nx ny = getLevelAtCoord canvas nx ny + 1"
    using il ne by (simp add: getLevel_setLevel_neq getLevel_setLevel_same insideLevels_def)
  from beats_pure_writes_neighbor [OF ps pn b] s n
  consider (red) "r > 0" "ng > 0" "nr = 0" "nb = 0"
    | (green) "\<not> (r > 0 \<and> ng > 0)" "g > 0" "nb > 0" "nr = 0" "ng = 0"
    | (blue) "\<not> (r > 0 \<and> ng > 0)" "\<not> (g > 0 \<and> nb > 0)" "bl > 0" "nr > 0" "ng = 0" "nb = 0"
    by auto
  then show ?thesis
  proof cases
    case red
    then have "randomAlgorithm (Some t) x y nx ny canvas ob wb
        = Returned (?c', setRGB canvas wb x y 0 ng 0)"
      using nl s n nonblank by (simp add: randomAlgorithm_def Let_def)
    moreover have "getRGB ?c' (setRGB canvas wb x y 0 ng 0) x y = getRGB canvas ob nx ny"
      using ip red n cl by (simp add: getRGB_setRGB_same clamp8_0)
    ultimately show ?thesis using lv ln by blast
  next
    case green
    then have "randomAlgorithm (Some t) x y nx ny canvas ob wb
        = Returned (?c', setRGB canvas wb x y 0 0 nb)"
      using nl s n nonblank by (simp add: randomAlgorithm_def Let_def)
    moreover have "getRGB ?c' (setRGB canvas wb x y 0 0 nb) x y = getRGB canvas ob nx ny"
      using ip green n cl by (simp add: getRGB_setRGB_same clamp8_0)
    ultimately show ?thesis using lv ln by blast
  next
    case blue
    then have "randomAlgorithm (Some t) x y nx ny canvas ob wb
        = Returned (?c', setRGB canvas wb x y nr 0 0)"
      using nl s n nonblank by (simp add: randomAlgorithm_def Let_def)
    moreover have "getRGB ?c' (setRGB canvas wb x y nr 0 0) x y = getRGB canvas ob nx ny"
      using ip blue n cl by (simp add: getRGB_setRGB_same clamp8_0)
    ultimately show ?thesis using lv ln by blast
  qed
qed

lemma waves_predation_on_the_simulation_object:
  assumes nl: "getLevelAtCoord canvas nx ny \<noteq> 0"
    and old: "getLevelAtCoord canvas x y \<le> edibleLevel t"
    and ps: "pureColour (getRGB canvas ob x y)" and pn: "pureColour (getRGB canvas ob nx ny)"
    and b: "beats (getRGB canvas ob nx ny) (getRGB canvas ob x y)"
    and il: "insideLevels canvas x y" "insideLevels canvas nx ny"
    and ip: "insidePixels canvas wb x y"
  shows "(\<not> youngBanquetMode t \<or> getLevelAtCoord canvas nx ny > getLevelAtCoord canvas x y \<longrightarrow>
           (\<exists>c' wb'. wavesAlgorithm (Some t) x y nx ny canvas ob wb = Returned (c', wb')
              \<and> getRGB c' wb' x y = getRGB canvas ob nx ny
              \<and> getLevelAtCoord c' x y = initialLevel t
              \<and> getLevelAtCoord c' nx ny = initialLevel t))
       \<and> (youngBanquetMode t \<and> \<not> getLevelAtCoord canvas nx ny > getLevelAtCoord canvas x y \<longrightarrow>
           wavesAlgorithm (Some t) x y nx ny canvas ob wb
             = Returned (setLevelAtCoord canvas x y (getLevelAtCoord canvas x y - 1), wb))"
proof (intro conjI impI)
  obtain r g bl where s: "getRGB canvas ob x y = (r, g, bl)"
    by (cases "getRGB canvas ob x y") auto
  obtain nr ng nb where n: "getRGB canvas ob nx ny = (nr, ng, nb)"
    by (cases "getRGB canvas ob nx ny") auto
  have nonblank: "r + g + bl \<noteq> 0"
    using ps s by (auto simp: pureColour_def)
  {
    assume blocked: "youngBanquetMode t \<and> \<not> getLevelAtCoord canvas nx ny > getLevelAtCoord canvas x y"
    show "wavesAlgorithm (Some t) x y nx ny canvas ob wb
             = Returned (setLevelAtCoord canvas x y (getLevelAtCoord canvas x y - 1), wb)"
      using nl old s n nonblank blocked by (auto simp add: wavesAlgorithm_def Let_def)
  }
  assume go: "\<not> youngBanquetMode t \<or> getLevelAtCoord canvas nx ny > getLevelAtCoord canvas x y"
  have ne: "canvasCoordToLevelIndex canvas nx ny \<noteq> canvasCoordToLevelIndex canvas x y"
    using same_index_same_pixel [of canvas nx ny x y ob] beats_irrefl [OF ps] b by auto
  have bytes: "nr < 256" "ng < 256" "nb < 256"
    using n unsigned_less [where 'b = 8]
    by (auto simp: getRGB_def)
  then have cl: "unat (clamp8 nr) = nr" "unat (clamp8 ng) = ng" "unat (clamp8 nb) = nb"
    by (simp_all add: clamp8_def unat_of_nat min_def)
  let ?c1 = "setLevelAtCoord canvas nx ny (initialLevel t)"
  let ?c' = "setLevelAtCoord ?c1 x y (initialLevel t)"
  have lv: "getLevelAtCoord ?c' x y = initialLevel t"
    using il by (simp add: getLevel_setLevel_same)
  have ln: "getLevelAtCoord ?c' nx ny = initialLevel t"
    using il ne by (simp add: getLevel_setLevel_neq getLevel_setLevel_same insideLevels_def)
  from beats_pure_writes_neighbor [OF ps pn b] s n
  consider (red) "r > 0" "ng > 0" "nr = 0" "nb = 0"
    | (green) "\<not> (r > 0 \<and> ng > 0)" "g > 0" "nb > 0" "nr = 0" "ng = 0"
    | (blue) "\<not> (r > 0 \<and> ng > 0)" "\<not> (g > 0 \<and> nb > 0)" "bl > 0" "nr > 0" "ng = 0" "nb = 0"
    by auto
  then show "\<exists>c' wb'. wavesAlgorithm (Some t) x y nx ny canvas ob wb = Returned (c', wb')
              \<and> getRGB c' wb' x y = getRGB canvas ob nx ny
              \<and> getLevelAtCoord c' x y = initialLevel t
              \<and> getLevelAtCoord c' nx ny = initialLevel t"
  proof cases
    case red
    then have "wavesAlgorithm (Some t) x y nx ny canvas ob wb
        = Returned (?c', setRGB canvas wb x y 0 ng 0)"
      using nl old go s n nonblank by (auto simp add: wavesAlgorithm_def Let_def)
    moreover have "getRGB ?c' (setRGB canvas wb x y 0 ng 0) x y = getRGB canvas ob nx ny"
      using ip red n cl by (simp add: getRGB_setRGB_same clamp8_0)
    ultimately show ?thesis using lv ln by blast
  next
    case green
    then have "wavesAlgorithm (Some t) x y nx ny canvas ob wb
        = Returned (?c', setRGB canvas wb x y 0 0 nb)"
      using nl old go s n nonblank by (auto simp add: wavesAlgorithm_def Let_def)
    moreover have "getRGB ?c' (setRGB canvas wb x y 0 0 nb) x y = getRGB canvas ob nx ny"
      using ip green n cl by (simp add: getRGB_setRGB_same clamp8_0)
    ultimately show ?thesis using lv ln by blast
  next
    case blue
    then have "wavesAlgorithm (Some t) x y nx ny canvas ob wb
        = Returned (?c', setRGB canvas wb x y nr 0 0)"
      using nl old go s n nonblank by (auto simp add: wavesAlgorithm_def Let_def)
    moreover have "getRGB ?c' (setRGB canvas wb x y nr 0 0) x y = getRGB canvas ob nx ny"
      using ip blue n cl by (simp add: getRGB_setRGB_same clamp8_0)
    ultimately show ?thesis using lv ln by blast
  qed
qed

section \<open>The claims\<close>

text \<open>
  Every tick of the program goes through \<open>update\<close>, which calls the rule method with the
  receiver \<open>None\<close>. The theorems about a whole tick are therefore about the program as it
  runs; the theorems about one call of a method with the receiver \<open>Some t\<close> say what the
  method does when it is invoked on the simulation object.
\<close>

subsection \<open>C1: a pass reads only the snapshot taken before it\<close>

text \<open>
  C1 says that within a pass the update of a cell never observes a colour or a level that
  another cell's update wrote in the same pass. The colours are read from
  \<open>originalBuffer\<close> and written to \<open>workingBuffer\<close>, as \<^verbatim>\<open>doWork\<close> documents ("the
  writing buffer is not used for reading, since it may read something that was written in
  this same drawing iteration"). The levels are not: \<^verbatim>\<open>levelByAutomatonIndex\<close> is one
  array, written in place by \<^verbatim>\<open>setLevelAtCoord\<close> and read by \<^verbatim>\<open>getLevelAtCoord\<close> in
  the same pass.

  On the canvas \<open>chain\<close> (Classic, random picking) the cells \<open>(1, 1)\<close>, \<open>(2, 1)\<close>,
  \<open>(3, 1)\<close> pick the offsets \<open>(0, 0)\<close>, \<open>(-1, 0)\<close>, \<open>(-1, 0)\<close>. Before the pass the level of
  \<open>(2, 1)\<close> is 0, so on the snapshot the cell \<open>(3, 1)\<close> has a neighbor that cannot act and
  would stay as it is. In the pass \<open>(2, 1)\<close> is colonised first and gets level 7; the
  update of \<open>(3, 1)\<close> then reads that 7, takes the colonisation branch, and ends with the
  level 7 written in this pass and the blank colour of the snapshot.
\<close>

theorem level_written_in_the_pass_is_read_in_the_pass:
  "getLevelAtCoord chain 2 1 = 0
   \<and> update (\<lambda>k. if k = 258 \<or> k = 260 then D0 else D1) (classicSim, chain)
       = Returned
           (classicSim\<lparr>randomCalls := 262\<rparr>,
            grid 5 3 [emptyCell, emptyCell, emptyCell, emptyCell, emptyCell,
                      emptyCell, (redPixel, 7), (redPixel, 7), (blackPixel, 7), emptyCell,
                      emptyCell, emptyCell, emptyCell, emptyCell, emptyCell])"
  by code_simp

subsection \<open>C2: a cell is Empty exactly when its level is 0\<close>

text \<open>
  C2 says that after every tick every cell is Empty if and only if its level is 0. The
  colonisation branch copies the neighbor's colour and the neighbor's level to the cell,
  which keeps the two in step only when both are read from the same generation; the colour
  comes from the snapshot and the level from the array being written (see C1).

  On the canvas \<open>square\<close>, consistent before the tick, one Classic tick in fixed picking
  mode from cursor 1 returns normally and leaves the cells \<open>(1, 2)\<close> and \<open>(2, 2)\<close> Empty
  at level 7: the grid after the tick is not consistent.
\<close>

theorem empty_cell_ends_a_tick_with_a_level:
  "gridConsistent square
   \<and> update (\<lambda>k. D1)
        (classicSim\<lparr>neighborPickingMode := NEIGHBOR_PICKING_MODE_FIXED, fixedNeighborPicksIndex := 1\<rparr>, square)
       = Returned
           (classicSim\<lparr>neighborPickingMode := NEIGHBOR_PICKING_MODE_FIXED, fixedNeighborPicksIndex := 5\<rparr>,
            grid 4 4 [emptyCell, emptyCell, emptyCell, emptyCell,
                      emptyCell, (redPixel, 7), (redPixel, 7), emptyCell,
                      emptyCell, (blackPixel, 7), (blackPixel, 7), emptyCell,
                      emptyCell, emptyCell, emptyCell, emptyCell])
   \<and> \<not> gridConsistent
         (grid 4 4 [emptyCell, emptyCell, emptyCell, emptyCell,
                    emptyCell, (redPixel, 7), (redPixel, 7), emptyCell,
                    emptyCell, (blackPixel, 7), (blackPixel, 7), emptyCell,
                    emptyCell, emptyCell, emptyCell, emptyCell])"
  by code_simp

subsection \<open>C3: plain aging in Waves\<close>

text \<open>
  C3 says that the plain-aging branch of Waves decrements the level by one and clamps it at
  0. The branch is \<^verbatim>\<open>canvas.setLevelAtCoord(x, y, myLevel - 1)\<close>; nothing clamps. Amended:
  for a call on the simulation object, with a neighbor of nonzero level, a non-Empty cell
  whose level is at most \<open>edibleLevel\<close>, and no predation, the cell's level becomes exactly
  its level minus one, whatever its sign, and the working buffer (the cell's colour) is
  not written.
\<close>

theorem waves_plain_aging_has_no_clamp:
  assumes "getLevelAtCoord canvas nx ny \<noteq> 0"
    and "getLevelAtCoord canvas x y \<le> edibleLevel t"
    and "\<not> isPixelBlank canvas originalBuffer x y"
    and "\<not> wavesPredation t canvas originalBuffer x y nx ny"
    and "insideLevels canvas x y"
  shows "wavesAlgorithm (Some t) x y nx ny canvas originalBuffer workingBuffer
           = Returned (setLevelAtCoord canvas x y (getLevelAtCoord canvas x y - 1), workingBuffer)
         \<and> getLevelAtCoord (setLevelAtCoord canvas x y (getLevelAtCoord canvas x y - 1)) x y
             = getLevelAtCoord canvas x y - 1"
  using assms
  by (auto simp add: wavesAlgorithm_def Let_def getLevel_setLevel_same isPixelBlank_def
      wavesPredation_def beats_def split: prod.splits)

text \<open>
  The amended statement at a red cell of level 1 beside a red neighbor: it ages to 0.
\<close>

theorem waves_plain_aging_witness:
  "getLevelAtCoord (sameSpecies 1) 2 1 \<noteq> 0
   \<and> getLevelAtCoord (sameSpecies 1) 1 1 \<le> edibleLevel wavesSim
   \<and> \<not> isPixelBlank (sameSpecies 1) (imageData (sameSpecies 1)) 1 1
   \<and> \<not> wavesPredation wavesSim (sameSpecies 1) (imageData (sameSpecies 1)) 1 1 2 1
   \<and> insideLevels (sameSpecies 1) 1 1
   \<and> wavesAlgorithm (Some wavesSim) 1 1 2 1 (sameSpecies 1) (imageData (sameSpecies 1)) (imageData (sameSpecies 1))
       = Returned (setLevelAtCoord (sameSpecies 1) 1 1 (getLevelAtCoord (sameSpecies 1) 1 1 - 1),
                   imageData (sameSpecies 1))
   \<and> getLevelAtCoord (setLevelAtCoord (sameSpecies 1) 1 1 (getLevelAtCoord (sameSpecies 1) 1 1 - 1)) 1 1
       = getLevelAtCoord (sameSpecies 1) 1 1 - 1
   \<and> getLevelAtCoord (sameSpecies 1) 1 1 - 1 = 0"
proof -
  have h1: "getLevelAtCoord (sameSpecies 1) 2 1 \<noteq> 0"
    by code_simp
  have h2: "getLevelAtCoord (sameSpecies 1) 1 1 \<le> edibleLevel wavesSim"
    by code_simp
  have h3: "\<not> isPixelBlank (sameSpecies 1) (imageData (sameSpecies 1)) 1 1"
    by code_simp
  have h4: "\<not> wavesPredation wavesSim (sameSpecies 1) (imageData (sameSpecies 1)) 1 1 2 1"
    by code_simp
  have h5: "insideLevels (sameSpecies 1) 1 1"
    by code_simp
  have h6: "getLevelAtCoord (sameSpecies 1) 1 1 - 1 = 0"
    by code_simp
  note t = waves_plain_aging_has_no_clamp
      [where workingBuffer = "imageData (sameSpecies 1)", OF h1 h2 h3 h4 h5]
  from t h1 h2 h3 h4 h5 h6 show ?thesis
    by (elim conjE) (intro conjI; assumption)
qed

text \<open>
  C3 as stated fails at a non-Empty cell of level 0: the call leaves it at level -1.
\<close>

theorem waves_plain_aging_counterexample:
  "getLevelAtCoord (sameSpecies 0) 1 1 = 0
   \<and> \<not> isPixelBlank (sameSpecies 0) (imageData (sameSpecies 0)) 1 1
   \<and> wavesAlgorithm (Some wavesSim) 1 1 2 1 (sameSpecies 0) (imageData (sameSpecies 0)) (imageData (sameSpecies 0))
       = Returned (sameSpecies (- 1), imageData (sameSpecies 0))"
  by code_simp

subsection \<open>C4: predation in Classic\<close>

text \<open>
  C4 says that a successful predation in Classic gives the cell the neighbor's species,
  sets the cell's level to \<open>initialLevel\<close> and raises the neighbor's level by one. The
  method does the three writes in the order colour, neighbor's level, own level, and the
  last reads \<^verbatim>\<open>this.initialLevel\<close>. Called by \<open>update\<close> its receiver is undefined, so the
  read throws after the neighbor's level has been raised: the tick ends there, the working
  buffer with the new colour is dropped and the cell's level is never set. (On the
  simulation object the branch does what C4 says: \<open>classic_predation_on_the_simulation_object\<close>.)

  The spec's scenario, with the centre at level 5: blue centre, red neighbor at level 30 at
  offset \<open>(1, 0)\<close>. After the tick the neighbor is at level 31, the centre is still blue
  and still at level 5, and the tick has thrown.
\<close>

theorem classic_predation_throws_before_the_reset:
  "update (\<lambda>k. if k = 256 then D2 else D1) (classicSim, scenario 5)
     = Thrown TypeError
         (classicSim\<lparr>randomCalls := 258\<rparr>,
          grid 3 3 [emptyCell, emptyCell, emptyCell,
                    emptyCell, (bluePixel, 5), (redPixel, 31),
                    emptyCell, emptyCell, emptyCell])"
  by code_simp

subsection \<open>C5: predation in Waves\<close>

text \<open>
  C5 says that a successful predation in Waves gives the cell the neighbor's species and
  sets both levels to \<open>initialLevel\<close>. Called by \<open>update\<close> the method throws at its first
  read of the receiver, \<^verbatim>\<open>this.edibleLevel\<close>, before any write. (On the simulation
  object the branch does what C5 says: \<open>waves_predation_on_the_simulation_object\<close>.)

  The spec's scenario: blue centre at level 1 (the edible level), red neighbor at level 30
  at offset \<open>(1, 0)\<close>, with the young-banquet flag off and on. In both cases the tick throws
  and the canvas is as before.
\<close>

theorem waves_predation_throws:
  "update (\<lambda>k. if k = 256 then D2 else D1) (wavesSim\<lparr>youngBanquetMode := False\<rparr>, scenario 1)
     = Thrown TypeError (wavesSim\<lparr>youngBanquetMode := False, randomCalls := 258\<rparr>, scenario 1)
   \<and> update (\<lambda>k. if k = 256 then D2 else D1) (wavesSim, scenario 1)
     = Thrown TypeError (wavesSim\<lparr>randomCalls := 258\<rparr>, scenario 1)"
  by code_simp

subsection \<open>C6: a neighbor of level 0\<close>

text \<open>
  C6: in both variants, when the selected neighbor's level is 0 the call returns at once:
  neither the levels nor the working buffer change. This holds for every receiver, the
  undefined one of \<open>update\<close> included.
\<close>

theorem neighbor_level_zero_leaves_cell_unchanged:
  "getLevelAtCoord canvas nx ny = 0 \<Longrightarrow>
     randomAlgorithm this x y nx ny canvas originalBuffer workingBuffer
       = Returned (canvas, workingBuffer)
     \<and> wavesAlgorithm this x y nx ny canvas originalBuffer workingBuffer
       = Returned (canvas, workingBuffer)"
  by (simp add: randomAlgorithm_def wavesAlgorithm_def)

text \<open>
  C6 at the centre of \<open>loneCell\<close>, whose right neighbor is Empty at level 0.
\<close>

theorem neighbor_level_zero_witness:
  "getLevelAtCoord loneCell 2 1 = 0
   \<and> randomAlgorithm None 1 1 2 1 loneCell (imageData loneCell) (imageData loneCell)
       = Returned (loneCell, imageData loneCell)
   \<and> wavesAlgorithm None 1 1 2 1 loneCell (imageData loneCell) (imageData loneCell)
       = Returned (loneCell, imageData loneCell)"
proof -
  have h: "getLevelAtCoord loneCell 2 1 = 0"
    by code_simp
  from neighbor_level_zero_leaves_cell_unchanged
         [where this = None and x = 1 and y = 1 and originalBuffer = "imageData loneCell"
            and workingBuffer = "imageData loneCell", OF h] h
  show ?thesis
    by (elim conjE) (intro conjI; assumption)
qed

subsection \<open>C7: a cell too young to be eaten\<close>

text \<open>
  C7 says that in Waves a cell whose level exceeds \<open>edibleLevel\<close> ages by one whatever the
  neighbor's state. The method first returns when the neighbor's level is 0. Amended: for
  a call on the simulation object and a cell whose level exceeds \<open>edibleLevel\<close>, when the
  neighbor's level is nonzero the cell's level drops by exactly one and nothing else
  changes (no colour is written, the neighbor's level stays); when the neighbor's level is
  0 nothing changes at all.
\<close>

theorem waves_too_young_ages_beside_live_neighbor:
  assumes "edibleLevel t < getLevelAtCoord canvas x y"
    and "insideLevels canvas x y"
  shows "(getLevelAtCoord canvas nx ny \<noteq> 0 \<longrightarrow>
            wavesAlgorithm (Some t) x y nx ny canvas originalBuffer workingBuffer
              = Returned (setLevelAtCoord canvas x y (getLevelAtCoord canvas x y - 1), workingBuffer)
            \<and> getLevelAtCoord (setLevelAtCoord canvas x y (getLevelAtCoord canvas x y - 1)) x y
                = getLevelAtCoord canvas x y - 1)
       \<and> (getLevelAtCoord canvas nx ny = 0 \<longrightarrow>
            wavesAlgorithm (Some t) x y nx ny canvas originalBuffer workingBuffer
              = Returned (canvas, workingBuffer))"
  using assms by (simp add: wavesAlgorithm_def getLevel_setLevel_same)

text \<open>
  The amended statement in the spec's scenario: the centre at level 30 ages to 29.
\<close>

theorem waves_too_young_witness:
  "edibleLevel wavesSim < getLevelAtCoord (scenario 30) 1 1
   \<and> insideLevels (scenario 30) 1 1
   \<and> getLevelAtCoord (scenario 30) 2 1 \<noteq> 0
   \<and> wavesAlgorithm (Some wavesSim) 1 1 2 1 (scenario 30) (imageData (scenario 30)) (imageData (scenario 30))
       = Returned (setLevelAtCoord (scenario 30) 1 1 (getLevelAtCoord (scenario 30) 1 1 - 1),
                   imageData (scenario 30))
   \<and> getLevelAtCoord (setLevelAtCoord (scenario 30) 1 1 (getLevelAtCoord (scenario 30) 1 1 - 1)) 1 1
       = getLevelAtCoord (scenario 30) 1 1 - 1
   \<and> getLevelAtCoord (scenario 30) 1 1 - 1 = 29"
proof -
  have h1: "edibleLevel wavesSim < getLevelAtCoord (scenario 30) 1 1"
    by code_simp
  have h2: "insideLevels (scenario 30) 1 1"
    by code_simp
  have h3: "getLevelAtCoord (scenario 30) 2 1 \<noteq> 0"
    by code_simp
  have h4: "getLevelAtCoord (scenario 30) 1 1 - 1 = 29"
    by code_simp
  note t = waves_too_young_ages_beside_live_neighbor
      [where t = wavesSim and canvas = "scenario 30" and x = 1 and y = 1 and nx = 2 and ny = 1
         and originalBuffer = "imageData (scenario 30)" and workingBuffer = "imageData (scenario 30)",
       OF h1 h2, THEN conjunct1, rule_format, OF h3]
  from t h1 h2 h3 h4 show ?thesis
    by (elim conjE) (intro conjI; assumption)
qed

text \<open>
  C7 as stated fails when the neighbor is at level 0: the centre of \<open>loneCell\<close>, at level
  30 above the edible level 1, stays at level 30, with the receiver bound or not.
\<close>

theorem waves_too_young_counterexample:
  "edibleLevel wavesSim < getLevelAtCoord loneCell 1 1
   \<and> getLevelAtCoord loneCell 1 1 = 30
   \<and> wavesAlgorithm (Some wavesSim) 1 1 2 1 loneCell (imageData loneCell) (imageData loneCell)
       = Returned (loneCell, imageData loneCell)
   \<and> wavesAlgorithm None 1 1 2 1 loneCell (imageData loneCell) (imageData loneCell)
       = Returned (loneCell, imageData loneCell)"
  by code_simp

subsection \<open>C8: unknown configuration\<close>

text \<open>
  C8 says that an unknown picking mode or rule variant is rejected with an error when it is
  configured, and that no error surfaces in a tick and no variant is substituted. Amended,
  as the code has it: the listener of the picking-mode buttons ignores an unknown button
  text without any error; a picking mode that is none of the three is reported by the
  tick itself, which throws at the first interior cell before anything is written (on a
  canvas with an interior, when the simulation is not paused); and every rule variant
  name other than \<^verbatim>\<open>"waves"\<close> selects the Classic method.
\<close>

theorem unknown_configuration_is_not_rejected:
  "(v \<noteq> ''random'' \<and> v \<noteq> ''fixed'' \<and> v \<noteq> ''pre-random''
      \<longrightarrow> onNeighborSelectionChange v self = self)
   \<and> (neighborPickingMode self \<noteq> NEIGHBOR_PICKING_MODE_RANDOM
        \<and> neighborPickingMode self \<noteq> NEIGHBOR_PICKING_MODE_FIXED
        \<and> neighborPickingMode self \<noteq> NEIGHBOR_PICKING_MODE_PRE_RANDOM
        \<and> \<not> isPaused self \<and> 3 \<le> width c \<and> 3 \<le> height c
      \<longrightarrow> update rnd (self, c) = Thrown UnknownNeighborPickingMode (self, c))
   \<and> (algorithm self \<noteq> ''waves'' \<longrightarrow> selectAlgorithm self = randomAlgorithm)"
proof (intro conjI impI)
  assume "v \<noteq> ''random'' \<and> v \<noteq> ''fixed'' \<and> v \<noteq> ''pre-random''"
  then show "onNeighborSelectionChange v self = self"
    by (simp add: onNeighborSelectionChange_def)
next
  assume a: "neighborPickingMode self \<noteq> NEIGHBOR_PICKING_MODE_RANDOM
        \<and> neighborPickingMode self \<noteq> NEIGHBOR_PICKING_MODE_FIXED
        \<and> neighborPickingMode self \<noteq> NEIGHBOR_PICKING_MODE_PRE_RANDOM
        \<and> \<not> isPaused self \<and> 3 \<le> width c \<and> 3 \<le> height c"
  then have "pickNeighbor rnd self = Inl UnknownNeighborPickingMode"
    by (intro pickNeighbor_unknown) simp_all
  then have "callback rnd (imageData c) (self, c, imageData c)
      = Thrown UnknownNeighborPickingMode (self, c, imageData c)"
    using a by (intro callback_unknown) simp_all
  with a show "update rnd (self, c) = Thrown UnknownNeighborPickingMode (self, c)"
    by (simp add: update_def doWork_def)
next
  assume "algorithm self \<noteq> ''waves''"
  then show "selectAlgorithm self = randomAlgorithm"
    by (simp add: selectAlgorithm_def)
qed

text \<open>
  The amended statement at the button text \<^verbatim>\<open>"diagonal"\<close>, the mode 3 and the variant
  \<^verbatim>\<open>"scissors"\<close>.
\<close>

theorem unknown_configuration_witness:
  "''diagonal'' \<noteq> ''random'' \<and> ''diagonal'' \<noteq> ''fixed'' \<and> ''diagonal'' \<noteq> ''pre-random''
   \<and> onNeighborSelectionChange ''diagonal'' classicSim = classicSim
   \<and> neighborPickingMode (classicSim\<lparr>neighborPickingMode := 3\<rparr>) \<noteq> NEIGHBOR_PICKING_MODE_RANDOM
   \<and> neighborPickingMode (classicSim\<lparr>neighborPickingMode := 3\<rparr>) \<noteq> NEIGHBOR_PICKING_MODE_FIXED
   \<and> neighborPickingMode (classicSim\<lparr>neighborPickingMode := 3\<rparr>) \<noteq> NEIGHBOR_PICKING_MODE_PRE_RANDOM
   \<and> \<not> isPaused (classicSim\<lparr>neighborPickingMode := 3\<rparr>)
   \<and> 3 \<le> width (scenario 5) \<and> 3 \<le> height (scenario 5)
   \<and> update (\<lambda>k. D1) (classicSim\<lparr>neighborPickingMode := 3\<rparr>, scenario 5)
       = Thrown UnknownNeighborPickingMode (classicSim\<lparr>neighborPickingMode := 3\<rparr>, scenario 5)
   \<and> algorithm (classicSim\<lparr>algorithm := ''scissors''\<rparr>) \<noteq> ''waves''
   \<and> selectAlgorithm (classicSim\<lparr>algorithm := ''scissors''\<rparr>) = randomAlgorithm"
proof -
  have h1: "''diagonal'' \<noteq> ''random'' \<and> ''diagonal'' \<noteq> ''fixed'' \<and> ''diagonal'' \<noteq> ''pre-random''"
    by simp
  have h2: "neighborPickingMode (classicSim\<lparr>neighborPickingMode := 3\<rparr>) \<noteq> NEIGHBOR_PICKING_MODE_RANDOM
    \<and> neighborPickingMode (classicSim\<lparr>neighborPickingMode := 3\<rparr>) \<noteq> NEIGHBOR_PICKING_MODE_FIXED
    \<and> neighborPickingMode (classicSim\<lparr>neighborPickingMode := 3\<rparr>) \<noteq> NEIGHBOR_PICKING_MODE_PRE_RANDOM
    \<and> \<not> isPaused (classicSim\<lparr>neighborPickingMode := 3\<rparr>)
    \<and> 3 \<le> width (scenario 5) \<and> 3 \<le> height (scenario 5)"
    by code_simp
  have h3: "algorithm (classicSim\<lparr>algorithm := ''scissors''\<rparr>) \<noteq> ''waves''"
    by simp
  note t = unknown_configuration_is_not_rejected
  have c1: "onNeighborSelectionChange ''diagonal'' classicSim = classicSim"
    using t [where v = "''diagonal''" and self = classicSim, THEN conjunct1] h1 by (rule mp)
  have c2: "update (\<lambda>k. D1) (classicSim\<lparr>neighborPickingMode := 3\<rparr>, scenario 5)
       = Thrown UnknownNeighborPickingMode (classicSim\<lparr>neighborPickingMode := 3\<rparr>, scenario 5)"
    using t [where self = "classicSim\<lparr>neighborPickingMode := 3\<rparr>" and c = "scenario 5"
               and rnd = "\<lambda>k. D1", THEN conjunct2, THEN conjunct1] h2 by (rule mp)
  have c3: "selectAlgorithm (classicSim\<lparr>algorithm := ''scissors''\<rparr>) = randomAlgorithm"
    using t [where self = "classicSim\<lparr>algorithm := ''scissors''\<rparr>", THEN conjunct2, THEN conjunct2] h3
    by (rule mp)
  show ?thesis
    using h1 h2 h3 c1 c2 c3 by (elim conjE) (intro conjI; assumption)
qed

text \<open>
  C8 as stated fails: with the mode 3 the tick throws, and with the variant
  \<^verbatim>\<open>"scissors"\<close> a tick runs the Classic method and returns normally.
\<close>

theorem unknown_configuration_counterexample:
  "update (\<lambda>k. D1) (classicSim\<lparr>neighborPickingMode := 3\<rparr>, scenario 5)
     = Thrown UnknownNeighborPickingMode (classicSim\<lparr>neighborPickingMode := 3\<rparr>, scenario 5)
   \<and> update (\<lambda>k. if k = 258 \<or> k = 260 then D0 else D1) (classicSim\<lparr>algorithm := ''scissors''\<rparr>, chain)
     = Returned
         (classicSim\<lparr>algorithm := ''scissors'', randomCalls := 262\<rparr>,
          grid 5 3 [emptyCell, emptyCell, emptyCell, emptyCell, emptyCell,
                    emptyCell, (redPixel, 7), (redPixel, 7), (blackPixel, 7), emptyCell,
                    emptyCell, emptyCell, emptyCell, emptyCell, emptyCell])"
  by code_simp

subsection \<open>C9: the fixed cycle\<close>



subsection \<open>C10: border cells at level 0\<close>

text \<open>
  C10 says that a border cell that is Empty at level 0 is left unmodified by every tick,
  because the pass iterates interior cells only. The loops of \<^verbatim>\<open>update\<close> are commented
  "iterate over all pixels except for the ones in the border", and on a canvas at least
  two cells wide and high they do that and the claim holds
  (\<open>zero_level_border_cell_kept\<close>). But \<^verbatim>\<open>range(1, this.width - 1)\<close> counts down when its
  first argument is not below the second: on a canvas one cell wide, which has no
  interior, it yields \<open>x = 1\<close>, and the indices of \<open>(1, y)\<close> are those of the border cell
  \<open>(0, y + 1)\<close>.

  On the canvas \<open>column\<close>, one cell wide and three high, the Classic tick visits \<open>(1, 1)\<close>
  with the offset \<open>(-1, 0)\<close>: it reads its own cell at the indices of the bottom cell
  \<open>(0, 2)\<close>, a border cell that is Empty at level 0, and its neighbor at those of the red
  middle cell at level 7. The bottom cell is colonised: after the tick it is red at level 7.
\<close>

theorem border_cell_written_on_one_wide_canvas:
  "borderCell column 0 2
   \<and> isPixelBlank column (imageData column) 0 2
   \<and> getLevelAtCoord column 0 2 = 0
   \<and> update (\<lambda>k. if k = 256 then D0 else D1) (classicSim, column)
       = Returned (classicSim\<lparr>randomCalls := 258\<rparr>,
                   grid 1 3 [emptyCell, (redPixel, 7), (redPixel, 7)])"
  by code_simp

end
